theory Spec2Isabelle
  imports Main
begin

section \<open>Python string primitives used by the response parsers\<close>

text \<open>
  The two parsers of the repository (\<^verbatim>\<open>AIContentGenerator._parse_response\<close> in
  \<^verbatim>\<open>engine/ai_content_generator.py\<close> and \<^verbatim>\<open>MultiCategoryGenerator._parse_response\<close> in
  \<^verbatim>\<open>engine/multi_category_generator.py\<close>) are built from a handful of methods of Python's
  \<^verbatim>\<open>str\<close>. A Python string is modelled as a \<^typ>\<open>string\<close>; one \<^typ>\<open>char\<close> stands for one
  code point, so the model covers the code points below 256. Slices such as
  \<^verbatim>\<open>response[:500]\<close> count code points in Python and \<^typ>\<open>char\<close>s here.
\<close>

definition isspace :: "char \<Rightarrow> bool" where
  \<comment> \<open>\<^verbatim>\<open>str.isspace\<close> on one code point below 256: TAB, LF, VT, FF, CR, FS, GS, RS, US,
      SPACE, NEL and NBSP.\<close>
  "isspace c \<longleftrightarrow> c \<in> set [CHR 0x09, CHR 0x0A, CHR 0x0B, CHR 0x0C, CHR 0x0D,
                         CHR 0x1C, CHR 0x1D, CHR 0x1E, CHR 0x1F, CHR 0x20, CHR 0x85, CHR 0xA0]"

definition strip :: "string \<Rightarrow> string" where
  \<comment> \<open>\<^verbatim>\<open>s.strip()\<close>: leading and trailing whitespace removed.\<close>
  "strip s = rev (dropWhile isspace (rev (dropWhile isspace s)))"

fun startswith :: "string \<Rightarrow> string \<Rightarrow> bool" where
  \<comment> \<open>\<^verbatim>\<open>s.startswith(p)\<close>\<close>
  "startswith s [] = True"
| "startswith [] (p # ps) = False"
| "startswith (c # cs) (p # ps) = (c = p \<and> startswith cs ps)"

fun contains :: "string \<Rightarrow> string \<Rightarrow> bool" where
  \<comment> \<open>\<^verbatim>\<open>sub in s\<close>, written \<open>contains s sub\<close>\<close>
  "contains [] sub = (sub = [])"
| "contains (c # cs) sub = (startswith (c # cs) sub \<or> contains cs sub)"

function split_str :: "string \<Rightarrow> string \<Rightarrow> string list" where
  \<comment> \<open>\<^verbatim>\<open>s.split(sep)\<close>, written \<open>split_str sep s\<close>, for a non-empty separator: the pieces
      between the occurrences of \<open>sep\<close>, found from left to right without overlap. The source
      only calls it with the literal separators of two newlines, one newline and three hyphens.\<close>
  "split_str sep [] = [[]]"
| "split_str sep (c # cs) =
     (if sep \<noteq> [] \<and> startswith (c # cs) sep
      then [] # split_str sep (drop (length sep - 1) cs)
      else (case split_str sep cs of
              [] \<Rightarrow> [[c]]
            | w # ws \<Rightarrow> (c # w) # ws))"
  by pat_completeness auto
termination
  by (relation "measure (\<lambda>(sep, s). length s)") auto

function replace :: "string \<Rightarrow> string \<Rightarrow> string \<Rightarrow> string" where
  \<comment> \<open>\<^verbatim>\<open>s.replace(old, new)\<close>, written \<open>replace old new s\<close>, for a non-empty \<open>old\<close>: every
      occurrence, from left to right without overlap.\<close>
  "replace old new [] = []"
| "replace old new (c # cs) =
     (if old \<noteq> [] \<and> startswith (c # cs) old
      then new @ replace old new (drop (length old - 1) cs)
      else c # replace old new cs)"
  by pat_completeness auto
termination
  by (relation "measure (\<lambda>(old, new, s). length s)") auto

fun join :: "string \<Rightarrow> string list \<Rightarrow> string" where
  \<comment> \<open>\<^verbatim>\<open>sep.join(xs)\<close>\<close>
  "join sep [] = []"
| "join sep [x] = x"
| "join sep (x # y # ys) = x @ sep @ join sep (y # ys)"

fun split_ws_from :: "string \<Rightarrow> string \<Rightarrow> string list" where
  \<comment> \<open>the words of a string, \<open>w\<close> being the word read so far\<close>
  "split_ws_from w [] = (if w = [] then [] else [w])"
| "split_ws_from w (c # cs) =
     (if isspace c then (if w = [] then split_ws_from [] cs else w # split_ws_from [] cs)
      else split_ws_from (w @ [c]) cs)"

definition split_ws :: "string \<Rightarrow> string list" where
  \<comment> \<open>\<^verbatim>\<open>s.split()\<close> with no argument: the maximal runs of non-whitespace.\<close>
  "split_ws s = split_ws_from [] s"


section \<open>The generated-content record\<close>

text \<open>
  Both parsers fill a dictionary with nine fixed keys; it is modelled as a record. The keys
  \<^verbatim>\<open>twitter_thread\<close> and \<^verbatim>\<open>cta\<close> start as lists, but the assignment
  \<^verbatim>\<open>result[current_section] = '...'.strip()\<close> can store a string under them, so each of the
  two holds a value that is either a string or a list of strings. The other keys only ever
  receive values of one type.
\<close>

datatype pyval = Str string | Lst "string list"

fun truthy :: "pyval \<Rightarrow> bool" where
  \<comment> \<open>Python's truth value of a string or a list: it is not empty.\<close>
  "truthy (Str s) = (s \<noteq> [])"
| "truthy (Lst xs) = (xs \<noteq> [])"

record content =
  topic :: string
  category :: string
  master_storyline :: string
  youtube_script :: string
  instagram_script :: string
  twitter_thread :: pyval
  caption :: string
  cta :: pyval
  hashtags :: "string list"

text \<open>
  \<^verbatim>\<open>current_section\<close> is \<^verbatim>\<open>None\<close> or one of six key names; the key names are a datatype
  and \<open>assign f s r\<close> is \<^verbatim>\<open>result[f] = s\<close> for a string \<open>s\<close>.
\<close>

datatype field = Master_storyline | Youtube_script | Instagram_script
  | Twitter_thread | Caption | Cta

fun assign :: "field \<Rightarrow> string \<Rightarrow> content \<Rightarrow> content" where
  "assign Master_storyline s r = r\<lparr>master_storyline := s\<rparr>"
| "assign Youtube_script s r = r\<lparr>youtube_script := s\<rparr>"
| "assign Instagram_script s r = r\<lparr>instagram_script := s\<rparr>"
| "assign Twitter_thread s r = r\<lparr>twitter_thread := Str s\<rparr>"
| "assign Caption s r = r\<lparr>caption := s\<rparr>"
| "assign Cta s r = r\<lparr>cta := Str s\<rparr>"

definition split_segments :: "string \<Rightarrow> string list" where
  \<comment> \<open>\<^verbatim>\<open>[t.strip() for t in text.split('---') if t.strip()]\<close>\<close>
  "split_segments text = [strip t. t \<leftarrow> split_str ''---'' text, strip t \<noteq> []]"

record pstate =
  result :: content
  current_section :: "field option"
  current_content :: "string list"

section \<open>The single-category parser\<close>

text \<open>
  \<^verbatim>\<open>AIContentGenerator._parse_response(response, topic)\<close>. The response is cut at blank lines
  (\<^verbatim>\<open>response.split('\n\n')\<close>) and the loop body \<open>step\<close> runs once for each block. The three
  ways the source writes the buffer into the record are \<open>flush\<close> (any open section, as a
  string), \<open>flush_thread\<close> (only an open \<^verbatim>\<open>twitter_thread\<close>, as a list) and \<open>flush_cta\<close>
  (only an open \<^verbatim>\<open>cta\<close>, as a list).
\<close>

definition flush :: "string \<Rightarrow> pstate \<Rightarrow> content" where
  \<comment> \<open>\<^verbatim>\<open>if current_section and current_content:
        result[current_section] = sep.join(current_content).strip()\<close>\<close>
  "flush sep st =
     (case current_section st of
        None \<Rightarrow> result st
      | Some f \<Rightarrow>
          if current_content st \<noteq> []
          then assign f (strip (join sep (current_content st))) (result st)
          else result st)"

definition flush_thread :: "string \<Rightarrow> pstate \<Rightarrow> content" where
  \<comment> \<open>\<^verbatim>\<open>if current_section == 'twitter_thread' and current_content:
        result['twitter_thread'] = [t.strip() for t in sep.join(current_content).split('---')
                                    if t.strip()]\<close>\<close>
  "flush_thread sep st =
     (if current_section st = Some Twitter_thread \<and> current_content st \<noteq> []
      then (result st)\<lparr>twitter_thread := Lst (split_segments (join sep (current_content st)))\<rparr>
      else result st)"

definition flush_cta :: "string \<Rightarrow> pstate \<Rightarrow> content" where
  \<comment> \<open>\<^verbatim>\<open>if current_section == 'cta' and current_content:
        result['cta'] = [c.strip() for c in sep.join(current_content).split('---')
                         if c.strip()]\<close>\<close>
  "flush_cta sep st =
     (if current_section st = Some Cta \<and> current_content st \<noteq> []
      then (result st)\<lparr>cta := Lst (split_segments (join sep (current_content st)))\<rparr>
      else result st)"

definition parse_hashtags :: "string \<Rightarrow> string list" where
  \<comment> \<open>\<^verbatim>\<open>[h.strip() for h in hashtags_text.split() if h.strip().startswith('#')]\<close>\<close>
  "parse_hashtags hashtags_text =
     [strip h. h \<leftarrow> split_ws hashtags_text, startswith (strip h) ''#'']"

definition step :: "pstate \<Rightarrow> string \<Rightarrow> pstate" where
  "step st block =
     (let section = strip block in
      if startswith section ''CATEGORY:'' then
        st\<lparr>result := (result st)\<lparr>category := strip (replace ''CATEGORY:'' [] section)\<rparr>\<rparr>
      else if startswith section ''MASTER_STORYLINE:'' then
        st\<lparr>current_section := Some Master_storyline,
           current_content := [strip (replace ''MASTER_STORYLINE:'' [] section)]\<rparr>
      else if startswith section ''YOUTUBE_SCRIPT:'' then
        \<lparr>result = flush ''\<newline>\<newline>'' st,
         current_section = Some Youtube_script,
         current_content = [strip (replace ''YOUTUBE_SCRIPT:'' [] section)]\<rparr>
      else if startswith section ''INSTAGRAM_SCRIPT:'' then
        \<lparr>result = flush ''\<newline>\<newline>'' st,
         current_section = Some Instagram_script,
         current_content = [strip (replace ''INSTAGRAM_SCRIPT:'' [] section)]\<rparr>
      else if startswith section ''TWITTER_THREAD:'' then
        \<lparr>result = flush ''\<newline>\<newline>'' st,
         current_section = Some Twitter_thread,
         current_content = []\<rparr>
      else if startswith section ''CAPTION:'' then
        \<lparr>result = flush_thread ''\<newline>\<newline>'' st,
         current_section = Some Caption,
         current_content = [strip (replace ''CAPTION:'' [] section)]\<rparr>
      else if startswith section ''CTA:'' then
        \<lparr>result = flush ''\<newline>\<newline>'' st,
         current_section = Some Cta,
         current_content = []\<rparr>
      else if startswith section ''HASHTAGS:'' then
        \<lparr>result = (flush_cta ''\<newline>\<newline>'' st)
           \<lparr>hashtags := parse_hashtags (strip (replace ''HASHTAGS:'' [] section))\<rparr>,
         current_section = None,
         current_content = current_content st\<rparr>
      else if current_section st \<noteq> None then
        st\<lparr>current_content := current_content st @ [section]\<rparr>
      else st)"

definition handle_last :: "string \<Rightarrow> pstate \<Rightarrow> content" where
  \<comment> \<open>the block after the loop, commented \<^verbatim>\<open># Handle last section\<close>\<close>
  "handle_last sep st =
     (case current_section st of
        None \<Rightarrow> result st
      | Some f \<Rightarrow>
          if current_content st = [] then result st
          else if f = Twitter_thread then
            (result st)\<lparr>twitter_thread := Lst (split_segments (join sep (current_content st)))\<rparr>
          else if f = Cta then
            (result st)\<lparr>cta := Lst (split_segments (join sep (current_content st)))\<rparr>
          else assign f (strip (join sep (current_content st))) (result st))"

definition init_result :: "string \<Rightarrow> content" where
  "init_result tp =
     \<lparr>topic = tp, category = ''new_tool_intro'', master_storyline = [],
      youtube_script = [], instagram_script = [], twitter_thread = Lst [],
      caption = [], cta = Lst [], hashtags = []\<rparr>"

definition parse_sections :: "string \<Rightarrow> string \<Rightarrow> content" where
  \<comment> \<open>the record after the loop and the last-section block, before the defaults\<close>
  "parse_sections response tp =
     handle_last ''\<newline>\<newline>''
       (foldl step \<lparr>result = init_result tp, current_section = None, current_content = []\<rparr>
          (split_str ''\<newline>\<newline>'' response))"

definition ensure_content :: "string \<Rightarrow> content \<Rightarrow> content" where
  \<comment> \<open>the four tests commented \<^verbatim>\<open># Ensure we have at least some content\<close>\<close>
  "ensure_content response r0 =
     (let r1 = (if master_storyline r0 = [] then r0\<lparr>master_storyline := take 500 response\<rparr>
                else r0);
          r2 = (if \<not> truthy (twitter_thread r1)
                then r1\<lparr>twitter_thread := Lst [take 280 response]\<rparr> else r1);
          r3 = (if \<not> truthy (cta r2)
                then r2\<lparr>cta := Lst [''Follow for more!'', ''Share this post!'',
                                    ''Comment your thoughts!'']\<rparr>
                else r2)
      in if hashtags r3 = [] then r3\<lparr>hashtags := [''#AI'', ''#Tech'', ''#Innovation'']\<rparr>
         else r3)"

text \<open>
  The source wraps the loop and the defaults in \<^verbatim>\<open>try\<close>/\<^verbatim>\<open>except Exception\<close>. Every
  operation in the \<^verbatim>\<open>try\<close> block is defined on all strings, and \<^verbatim>\<open>generate\<close> only passes a
  non-empty string, so for a string response the handler is never entered; \<open>parse_error\<close>
  records what the handler would store.
\<close>

definition parse_error :: "string \<Rightarrow> string \<Rightarrow> content" where
  "parse_error response tp =
     (init_result tp)\<lparr>master_storyline := response,
        youtube_script := take 500 response,
        instagram_script := take 300 response,
        twitter_thread := Lst [take 280 response],
        caption := take 200 response,
        cta := Lst [''Follow for more!'', ''Share this!'', ''Comment below!''],
        hashtags := [''#AI'', ''#Tech'', ''#Innovation'']\<rparr>"

definition parse_response :: "string \<Rightarrow> string \<Rightarrow> content" where
  "parse_response response tp = ensure_content response (parse_sections response tp)"

section \<open>The multi-category parser\<close>

text \<open>
  \<^verbatim>\<open>MultiCategoryGenerator._parse_response(response, topic, category)\<close>. The response is cut
  into lines (\<^verbatim>\<open>response.split('\n')\<close>); a line belongs to a marker when the marker occurs
  anywhere in it (\<^verbatim>\<open>'MASTER_STORYLINE:' in line\<close>), and the marker's own line is never
  part of the section's content.
\<close>

definition step_multi :: "pstate \<Rightarrow> string \<Rightarrow> pstate" where
  "step_multi st line =
     (if contains line ''MASTER_STORYLINE:'' then
        st\<lparr>current_section := Some Master_storyline, current_content := []\<rparr>
      else if contains line ''YOUTUBE_SCRIPT:'' then
        \<lparr>result = flush ''\<newline>'' st,
         current_section = Some Youtube_script,
         current_content = []\<rparr>
      else if contains line ''INSTAGRAM_SCRIPT:'' then
        \<lparr>result = flush ''\<newline>'' st,
         current_section = Some Instagram_script,
         current_content = []\<rparr>
      else if contains line ''TWITTER_THREAD:'' then
        \<lparr>result = flush ''\<newline>'' st,
         current_section = Some Twitter_thread,
         current_content = []\<rparr>
      else if contains line ''CAPTION:'' then
        \<lparr>result = flush_thread ''\<newline>'' st,
         current_section = Some Caption,
         current_content = []\<rparr>
      else if current_section st \<noteq> None then
        st\<lparr>current_content := current_content st @ [line]\<rparr>
      else st)"

definition handle_last_multi :: "pstate \<Rightarrow> content" where
  "handle_last_multi st =
     (case current_section st of
        None \<Rightarrow> result st
      | Some f \<Rightarrow>
          if current_content st = [] then result st
          else if f = Twitter_thread then
            (result st)\<lparr>twitter_thread :=
               Lst (split_segments (join ''\<newline>'' (current_content st)))\<rparr>
          else assign f (strip (join ''\<newline>'' (current_content st))) (result st))"

definition init_result_multi :: "string \<Rightarrow> string \<Rightarrow> content" where
  "init_result_multi tp cat =
     \<lparr>topic = tp, category = cat, master_storyline = [],
      youtube_script = [], instagram_script = [], twitter_thread = Lst [],
      caption = [],
      cta = Lst [''Follow for more!'', ''Share this!'', ''Comment below!''],
      hashtags = [''#AI'', ''#Tech'', ''#Innovation'', ''#Viral'', ''#Trending'']\<rparr>"

definition parse_sections_multi :: "string \<Rightarrow> string \<Rightarrow> string \<Rightarrow> content" where
  \<comment> \<open>the record after the loop and the last-section block, before the defaults\<close>
  "parse_sections_multi response tp cat =
     handle_last_multi
       (foldl step_multi
          \<lparr>result = init_result_multi tp cat, current_section = None, current_content = []\<rparr>
          (split_str ''\<newline>'' response))"

definition ensure_content_multi :: "string \<Rightarrow> content \<Rightarrow> content" where
  \<comment> \<open>the two tests commented \<^verbatim>\<open># Ensure we have something\<close>\<close>
  "ensure_content_multi response r0 =
     (let r1 = (if master_storyline r0 = [] then r0\<lparr>master_storyline := take 300 response\<rparr>
                else r0)
      in if \<not> truthy (twitter_thread r1)
         then r1\<lparr>twitter_thread := Lst [take 280 response]\<rparr> else r1)"

definition parse_response_multi :: "string \<Rightarrow> string \<Rightarrow> string \<Rightarrow> content" where
  "parse_response_multi response tp cat =
     ensure_content_multi response (parse_sections_multi response tp cat)"

section \<open>The two generation calls\<close>

text \<open>
  \<^verbatim>\<open>AIContentGenerator.generate\<close> and \<^verbatim>\<open>MultiCategoryGenerator.generate_all\<close> talk to two
  external services. \<^verbatim>\<open>search_and_format(topic)\<close> catches every error of the search and
  returns a string, possibly empty: the model takes that string as \<open>search_context\<close>.
  \<^verbatim>\<open>OpenRouterAI.generate(prompt, model, max_tokens)\<close> returns the completion or \<^verbatim>\<open>None\<close>:
  the model takes the service as a function \<open>ai\<close>. \<^verbatim>\<open>ai_available\<close> is the flag the
  constructor sets when the client could be built. The prompt templates of \<^verbatim>\<open>_build_prompt\<close>
  are only ever handed to the service, and their text uses code points above 255, so the
  prompt builder is a parameter \<open>build_prompt\<close> as well. A raised \<^verbatim>\<open>Exception(msg)\<close> is the
  value \<open>Inl (Exception msg)\<close>.
\<close>

datatype error = Exception string

definition single_context :: "string \<Rightarrow> string option \<Rightarrow> string" where
  \<comment> \<open>\<^verbatim>\<open>full_context\<close> of \<^verbatim>\<open>generate\<close>\<close>
  "single_context search_context context =
     (let fc0 = (if search_context \<noteq> []
                 then ''REAL-TIME SEARCH FACTS:\<newline>'' @ search_context @ ''\<newline>\<newline>''
                 else [])
      in case context of
           None \<Rightarrow> fc0
         | Some c \<Rightarrow> if c \<noteq> [] then fc0 @ ''USER UPLOADED SOURCE:\<newline>'' @ c else fc0)"

definition generate ::
  "bool \<Rightarrow> (string \<Rightarrow> string \<Rightarrow> nat \<Rightarrow> string option) \<Rightarrow> (string \<Rightarrow> string \<Rightarrow> string)
     \<Rightarrow> string \<Rightarrow> string \<Rightarrow> string option \<Rightarrow> string \<Rightarrow> error + content" where
  "generate ai_available ai build_prompt search_context tp context model =
     (if \<not> ai_available
      then Inl (Exception ''AI service not available. Check OPENROUTER_API_KEY in .env'')
      else
        case ai (build_prompt tp (single_context search_context context)) model 3500 of
          None \<Rightarrow> Inl (Exception ''Failed to generate content from AI'')
        | Some response \<Rightarrow>
            if response = [] then Inl (Exception ''Failed to generate content from AI'')
            else Inr (parse_response response tp))"

definition CATEGORIES :: "(string \<times> string) list" where
  \<comment> \<open>a dictionary literal; Python iterates it in the order written\<close>
  "CATEGORIES =
     [(''new_tool_intro'', ''New Tool Introduction''),
      (''tool_detailed_tutorial'', ''Detailed Tutorial''),
      (''trending_ai_model'', ''Trending AI Model''),
      (''ai_trending_news'', ''AI Trending News''),
      (''github_open_source_repo'', ''GitHub Repository''),
      (''instagram_engagement_content'', ''Engagement Content'')]"

definition shared_context :: "string \<Rightarrow> string option \<Rightarrow> string" where
  \<comment> \<open>\<^verbatim>\<open>full_context\<close> of \<^verbatim>\<open>generate_all\<close>, built once before the loop\<close>
  "shared_context search_context context =
     (let fc0 = (if search_context \<noteq> []
                 then ''REAL-TIME SEARCH FACTS:\<newline>'' @ search_context @ ''\<newline>\<newline>''
                 else []);
          fc1 = (case context of
                   None \<Rightarrow> fc0
                 | Some c \<Rightarrow> if c \<noteq> [] then fc0 @ ''USER UPLOADED SOURCE:\<newline>'' @ c else fc0)
      in if fc1 = []
         then (if search_context \<noteq> [] then search_context
               else ''No specific context provided.'')
         else fc1)"

definition collect ::
  "(string \<Rightarrow> string \<Rightarrow> nat \<Rightarrow> string option) \<Rightarrow> (string \<Rightarrow> string \<Rightarrow> string \<Rightarrow> string)
     \<Rightarrow> string \<Rightarrow> string \<Rightarrow> string \<Rightarrow> content list \<Rightarrow> string \<times> string \<Rightarrow> content list" where
  \<comment> \<open>the body of the loop over \<^verbatim>\<open>self.CATEGORIES.items()\<close>\<close>
  "collect ai build_prompt full_context tp model results item =
     (case item of (category_id, category_name) \<Rightarrow>
        (case ai (build_prompt tp category_id full_context) model 2000 of
           None \<Rightarrow> results
         | Some response \<Rightarrow>
             if response \<noteq> []
             then results @ [parse_response_multi response tp category_id]
             else results))"

definition generate_all ::
  "bool \<Rightarrow> (string \<Rightarrow> string \<Rightarrow> nat \<Rightarrow> string option) \<Rightarrow> (string \<Rightarrow> string \<Rightarrow> string \<Rightarrow> string)
     \<Rightarrow> string \<Rightarrow> string \<Rightarrow> string option \<Rightarrow> string \<Rightarrow> error + content list" where
  "generate_all ai_available ai build_prompt search_context tp context model =
     (if \<not> ai_available then Inl (Exception ''AI service not available'')
      else Inr (foldl (collect ai build_prompt (shared_context search_context context) tp model)
                  [] CATEGORIES))"

section \<open>Predicates of the statements\<close>

text \<open>
  The eight markers the single-category parser tests a trimmed block for, and the five the
  multi-category parser searches a line for.
\<close>

definition MARKERS :: "string list" where
  "MARKERS = [''CATEGORY:'', ''MASTER_STORYLINE:'', ''YOUTUBE_SCRIPT:'', ''INSTAGRAM_SCRIPT:'',
              ''TWITTER_THREAD:'', ''CAPTION:'', ''CTA:'', ''HASHTAGS:'']"

definition MARKERS_multi :: "string list" where
  "MARKERS_multi = [''MASTER_STORYLINE:'', ''YOUTUBE_SCRIPT:'', ''INSTAGRAM_SCRIPT:'',
                    ''TWITTER_THREAD:'', ''CAPTION:'']"

definition is_marker_block :: "string \<Rightarrow> bool" where
  \<comment> \<open>the trimmed block starts with one of the eight markers\<close>
  "is_marker_block block = list_ex (startswith (strip block)) MARKERS"

definition is_marker_line :: "string \<Rightarrow> bool" where
  \<comment> \<open>one of the five markers occurs somewhere in the line\<close>
  "is_marker_line line = list_ex (contains line) MARKERS_multi"

definition no_markers :: "string \<Rightarrow> bool" where
  \<comment> \<open>the single-category parser finds no marker in the response\<close>
  "no_markers response =
     list_all (\<lambda>block. \<not> is_marker_block block) (split_str ''\<newline>\<newline>'' response)"

definition responded ::
  "(string \<Rightarrow> string \<Rightarrow> nat \<Rightarrow> string option) \<Rightarrow> (string \<Rightarrow> string \<Rightarrow> string \<Rightarrow> string)
     \<Rightarrow> string \<Rightarrow> string \<Rightarrow> string \<Rightarrow> string \<Rightarrow> bool" where
  \<comment> \<open>the request of \<^verbatim>\<open>generate_all\<close> for a category came back with a non-empty text\<close>
  "responded ai build_prompt full_context tp model category_id =
     (case ai (build_prompt tp category_id full_context) model 2000 of
        None \<Rightarrow> False
      | Some response \<Rightarrow> response \<noteq> [])"

definition multi_inv :: "content \<Rightarrow> pstate \<Rightarrow> bool" where
  \<comment> \<open>what the loop of the multi-category parser keeps: it never opens \<^verbatim>\<open>cta\<close>, and the
      category, the calls to action and the hashtags are those of the initial record \<open>r0\<close>\<close>
  "multi_inv r0 st \<longleftrightarrow>
     current_section st \<noteq> Some Cta \<and> category (result st) = category r0 \<and>
     cta (result st) = cta r0 \<and> hashtags (result st) = hashtags r0"

section \<open>Facts about the string primitives\<close>

lemma startswith_iff: "startswith s p \<longleftrightarrow> (\<exists>post. s = p @ post)"
  by (induction s p rule: startswith.induct) auto

lemma contains_iff: "contains s sub \<longleftrightarrow> (\<exists>pre post. s = pre @ sub @ post)"
proof (induction s)
  case Nil
  then show ?case by auto
next
  case (Cons c cs)
  show ?case
  proof
    assume "contains (c # cs) sub"
    then consider "startswith (c # cs) sub" | "contains cs sub" by auto
    then show "\<exists>pre post. c # cs = pre @ sub @ post"
    proof cases
      case 1
      then obtain post where "c # cs = sub @ post" by (auto simp: startswith_iff)
      then have "c # cs = [] @ sub @ post" by simp
      then show ?thesis by blast
    next
      case 2
      then obtain pre post where "cs = pre @ sub @ post" using Cons.IH by auto
      then have "c # cs = (c # pre) @ sub @ post" by simp
      then show ?thesis by blast
    qed
  next
    assume "\<exists>pre post. c # cs = pre @ sub @ post"
    then obtain pre post where eq: "c # cs = pre @ sub @ post" by auto
    show "contains (c # cs) sub"
    proof (cases pre)
      case Nil
      then have "startswith (c # cs) sub" using eq by (auto simp: startswith_iff)
      then show ?thesis by simp
    next
      case (Cons a pre')
      then have "cs = pre' @ sub @ post" using eq by simp
      then have "contains cs sub" using Cons.IH by blast
      then show ?thesis by simp
    qed
  qed
qed

lemma strip_strip: "strip (strip s) = strip s"
proof -
  define t where "t = dropWhile isspace s"
  define u where "u = dropWhile isspace (rev t)"
  have u: "dropWhile isspace u = u" unfolding u_def by simp
  have "rev t = takeWhile isspace (rev t) @ u" unfolding u_def by simp
  then have t: "t = rev u @ rev (takeWhile isspace (rev t))"
    by (metis rev_append rev_rev_ident)
  have "dropWhile isspace (rev u) = rev u"
  proof (cases "rev u")
    case Nil
    then show ?thesis by simp
  next
    case (Cons a as)
    then have "hd t = a" using t by (metis hd_append2 list.sel(1) list.distinct(1))
    moreover have "t \<noteq> []" using t Cons by auto
    ultimately have "\<not> isspace a" unfolding t_def using hd_dropWhile by metis
    then show ?thesis using Cons by simp
  qed
  then show ?thesis unfolding strip_def t_def[symmetric] u_def[symmetric] by (simp add: u)
qed

section \<open>What the writes into the record leave alone\<close>

lemma assign_keeps [simp]:
  "topic (assign f s r) = topic r"
  "category (assign f s r) = category r"
  "hashtags (assign f s r) = hashtags r"
  by (cases f; simp)+

lemma assign_cta: "f \<noteq> Cta \<Longrightarrow> cta (assign f s r) = cta r"
  by (cases f) simp_all

lemma flush_keeps [simp]:
  "topic (flush sep st) = topic (result st)"
  "category (flush sep st) = category (result st)"
  "hashtags (flush sep st) = hashtags (result st)"
  by (simp_all add: flush_def split: option.split)

lemma flush_thread_keeps [simp]:
  "topic (flush_thread sep st) = topic (result st)"
  "category (flush_thread sep st) = category (result st)"
  "hashtags (flush_thread sep st) = hashtags (result st)"
  "cta (flush_thread sep st) = cta (result st)"
  by (simp_all add: flush_thread_def)

lemma flush_cta_no_Cta:
  "current_section st \<noteq> Some Cta \<Longrightarrow> cta (flush sep st) = cta (result st)"
  by (auto simp: flush_def assign_cta split: option.split)

lemma step_multi_inv: "multi_inv r0 st \<Longrightarrow> multi_inv r0 (step_multi st line)"
  by (simp add: multi_inv_def step_multi_def flush_cta_no_Cta)

lemma foldl_step_multi_inv: "multi_inv r0 st \<Longrightarrow> multi_inv r0 (foldl step_multi st ls)"
  by (induction ls arbitrary: st) (simp_all add: step_multi_inv)

lemma handle_last_multi_inv:
  assumes "multi_inv r0 st"
  shows "category (handle_last_multi st) = category r0"
    and "cta (handle_last_multi st) = cta r0"
    and "hashtags (handle_last_multi st) = hashtags r0"
  using assms
  by (auto simp: multi_inv_def handle_last_multi_def assign_cta split: option.split)

lemma parse_sections_multi_fixed:
  "category (parse_sections_multi response tp cat) = cat"
  "cta (parse_sections_multi response tp cat)
     = Lst [''Follow for more!'', ''Share this!'', ''Comment below!'']"
  "hashtags (parse_sections_multi response tp cat)
     = [''#AI'', ''#Tech'', ''#Innovation'', ''#Viral'', ''#Trending'']"
proof -
  let ?st0 = "\<lparr>result = init_result_multi tp cat, current_section = None,
               current_content = []\<rparr>"
  have "multi_inv (init_result_multi tp cat) ?st0"
    by (simp add: multi_inv_def)
  then have inv: "multi_inv (init_result_multi tp cat)
                    (foldl step_multi ?st0 (split_str ''\<newline>'' response))"
    by (rule foldl_step_multi_inv)
  show "category (parse_sections_multi response tp cat) = cat"
    unfolding parse_sections_multi_def using handle_last_multi_inv(1)[OF inv]
    by (simp add: init_result_multi_def)
  show "cta (parse_sections_multi response tp cat)
          = Lst [''Follow for more!'', ''Share this!'', ''Comment below!'']"
    unfolding parse_sections_multi_def using handle_last_multi_inv(2)[OF inv]
    by (simp add: init_result_multi_def)
  show "hashtags (parse_sections_multi response tp cat)
          = [''#AI'', ''#Tech'', ''#Innovation'', ''#Viral'', ''#Trending'']"
    unfolding parse_sections_multi_def using handle_last_multi_inv(3)[OF inv]
    by (simp add: init_result_multi_def)
qed

lemma ensure_content_multi_keeps [simp]:
  "category (ensure_content_multi response r) = category r"
  "cta (ensure_content_multi response r) = cta r"
  "hashtags (ensure_content_multi response r) = hashtags r"
  by (simp_all add: ensure_content_multi_def Let_def)

lemma category_parse_response_multi:
  "category (parse_response_multi response tp cat) = cat"
  by (simp add: parse_response_multi_def parse_sections_multi_fixed)

lemma ensure_content_truthy:
  "truthy (twitter_thread (ensure_content response r))"
  "truthy (cta (ensure_content response r))"
  "hashtags (ensure_content response r) \<noteq> []"
  by (simp_all add: ensure_content_def Let_def)

lemma ensure_content_multi_truthy:
  "truthy (twitter_thread (ensure_content_multi response r))"
  by (simp add: ensure_content_multi_def Let_def)

section \<open>The multi-category parser: fixed calls to action, hashtags and category\<close>

text \<open>
  C10. For every response text, topic and category, the multi-category parser returns
  \<^verbatim>\<open>cta\<close> equal to the fixed list of three phrases and \<^verbatim>\<open>hashtags\<close> equal to the fixed
  list of five tags: no part of the response text reaches either field.
\<close>

theorem multi_cta_hashtags_fixed:
  "cta (parse_response_multi response tp cat)
     = Lst [''Follow for more!'', ''Share this!'', ''Comment below!''] \<and>
   hashtags (parse_response_multi response tp cat)
     = [''#AI'', ''#Tech'', ''#Innovation'', ''#Viral'', ''#Trending'']"
  by (simp add: parse_response_multi_def parse_sections_multi_fixed)

text \<open>
  C5, as the code has it. The multi-category parser tests no line for a \<^verbatim>\<open>CATEGORY:\<close>
  marker and writes the \<^verbatim>\<open>category\<close> key only when it builds the initial record, so the
  record \<^verbatim>\<open>generate_all\<close> appends for a category always carries the category that was
  requested, whatever the response text says.
\<close>

theorem multi_category_is_requested:
  "category (parse_response_multi response tp requested) = requested"
  by (rule category_parse_response_multi)

text \<open>
  The statement that some response makes the returned category differ from the requested
  one is false.
\<close>

theorem multi_category_overwrite_counterexample:
  "\<not> (\<exists>response tp requested.
         category (parse_response_multi response tp requested) \<noteq> requested)"
  by (simp add: category_parse_response_multi)

section \<open>Sequences that are never empty\<close>

text \<open>
  C3. For every response text, the empty one included, the record returned by either parser
  has a non-empty \<^verbatim>\<open>twitter_thread\<close>, a non-empty \<^verbatim>\<open>cta\<close> and a non-empty
  \<^verbatim>\<open>hashtags\<close>.
\<close>

theorem sequences_never_empty:
  "truthy (twitter_thread (parse_response response tp)) \<and>
   truthy (cta (parse_response response tp)) \<and>
   hashtags (parse_response response tp) \<noteq> [] \<and>
   truthy (twitter_thread (parse_response_multi response tp cat)) \<and>
   truthy (cta (parse_response_multi response tp cat)) \<and>
   hashtags (parse_response_multi response tp cat) \<noteq> []"
  by (simp add: parse_response_def ensure_content_truthy parse_response_multi_def
      ensure_content_multi_truthy parse_sections_multi_fixed)

section \<open>Responses without markers and empty storylines\<close>

lemma step_no_marker:
  assumes "\<not> is_marker_block block"
  shows "step st block =
           (if current_section st = None then st
            else st\<lparr>current_content := current_content st @ [strip block]\<rparr>)"
  using assms by (simp add: is_marker_block_def MARKERS_def step_def Let_def)

lemma foldl_step_no_marker:
  "list_all (\<lambda>block. \<not> is_marker_block block) blocks \<Longrightarrow> current_section st = None
     \<Longrightarrow> foldl step st blocks = st"
  by (induction blocks arbitrary: st) (simp_all add: step_no_marker)

lemma parse_sections_no_markers:
  "no_markers response \<Longrightarrow> parse_sections response tp = init_result tp"
  by (simp add: no_markers_def parse_sections_def foldl_step_no_marker handle_last_def)

text \<open>
  C1, as the code has it. When no block of the response starts with a marker, the
  single-category parser returns the initial record with the four defaults filled in:
  \<^verbatim>\<open>master_storyline\<close> is the first 500 characters of the response (the whole response
  only when it has at most 500 characters), \<^verbatim>\<open>twitter_thread\<close> is the one-element list
  holding its first 280 characters, and \<^verbatim>\<open>cta\<close> and \<^verbatim>\<open>hashtags\<close> are the fixed
  three-item lists.
\<close>

theorem no_markers_gives_prefix_defaults:
  assumes "no_markers response"
  shows "parse_response response tp =
           \<lparr>topic = tp, category = ''new_tool_intro'',
            master_storyline = take 500 response,
            youtube_script = [], instagram_script = [],
            twitter_thread = Lst [take 280 response], caption = [],
            cta = Lst [''Follow for more!'', ''Share this post!'', ''Comment your thoughts!''],
            hashtags = [''#AI'', ''#Tech'', ''#Innovation'']\<rparr>"
  using assms
  by (simp add: parse_response_def parse_sections_no_markers ensure_content_def init_result_def)

theorem no_markers_gives_prefix_defaults_witness:
  "no_markers ''Just some prose.\<newline>\<newline>More prose about CTA: here.'' \<and>
   master_storyline
     (parse_response ''Just some prose.\<newline>\<newline>More prose about CTA: here.'' ''AI'')
     = ''Just some prose.\<newline>\<newline>More prose about CTA: here.'' \<and>
   twitter_thread
     (parse_response ''Just some prose.\<newline>\<newline>More prose about CTA: here.'' ''AI'')
     = Lst [''Just some prose.\<newline>\<newline>More prose about CTA: here.'']"
proof -
  have h: "no_markers ''Just some prose.\<newline>\<newline>More prose about CTA: here.''"
    by code_simp
  show ?thesis
    using h no_markers_gives_prefix_defaults [OF h, of "''AI''"] by simp
qed

text \<open>
  A response of 501 letters has no marker, and the storyline returned for it is not the
  response.
\<close>

theorem no_markers_full_text_counterexample:
  "no_markers (replicate 501 CHR ''a'') \<and>
   master_storyline (parse_response (replicate 501 CHR ''a'') ''AI'')
     \<noteq> replicate 501 CHR ''a''"
  by code_simp

text \<open>
  C2, evaluated. On the scenario's text the \<^verbatim>\<open>HASHTAGS:\<close> block closes the open
  \<^verbatim>\<open>master_storyline\<close> section without writing its buffer (that branch only writes an open
  \<^verbatim>\<open>cta\<close>), so the storyline stays empty and the default puts the whole response there.
  Category, hashtags and the two defaulted sequences are as the scenario says.
\<close>

theorem scenario_storyline_lost:
  "parse_response
     ''CATEGORY: trending_ai_model\<newline>\<newline>MASTER_STORYLINE:\<newline>Hello world\<newline>\<newline>HASHTAGS:\<newline>#AI #Tech''
     tp =
   \<lparr>topic = tp, category = ''trending_ai_model'',
    master_storyline =
      ''CATEGORY: trending_ai_model\<newline>\<newline>MASTER_STORYLINE:\<newline>Hello world\<newline>\<newline>HASHTAGS:\<newline>#AI #Tech'',
    youtube_script = [], instagram_script = [],
    twitter_thread =
      Lst [''CATEGORY: trending_ai_model\<newline>\<newline>MASTER_STORYLINE:\<newline>Hello world\<newline>\<newline>HASHTAGS:\<newline>#AI #Tech''],
    caption = [],
    cta = Lst [''Follow for more!'', ''Share this post!'', ''Comment your thoughts!''],
    hashtags = [''#AI'', ''#Tech'']\<rparr>"
  by code_simp

text \<open>
  C7, as the code has it. When the loop and the last-section block leave
  \<^verbatim>\<open>master_storyline\<close> empty, the single-category parser returns the first 500 characters
  of the response there and the multi-category parser the first 300.
\<close>

theorem empty_storyline_prefix:
  "(master_storyline (parse_sections response tp) = [] \<longrightarrow>
      master_storyline (parse_response response tp) = take 500 response) \<and>
   (master_storyline (parse_sections_multi response tp cat) = [] \<longrightarrow>
      master_storyline (parse_response_multi response tp cat) = take 300 response)"
  by (simp add: parse_response_def ensure_content_def parse_response_multi_def
      ensure_content_multi_def Let_def)

theorem empty_storyline_prefix_witness:
  "master_storyline (parse_sections (replicate 501 CHR ''a'') ''AI'') = [] \<and>
   master_storyline (parse_response (replicate 501 CHR ''a'') ''AI'')
     = replicate 500 CHR ''a'' \<and>
   master_storyline (parse_sections_multi (replicate 301 CHR ''a'') ''AI'' ''new_tool_intro'') = [] \<and>
   master_storyline (parse_response_multi (replicate 301 CHR ''a'') ''AI'' ''new_tool_intro'')
     = replicate 300 CHR ''a''"
proof -
  have h1: "master_storyline (parse_sections (replicate 501 CHR ''a'') ''AI'') = []"
    by code_simp
  have h2: "master_storyline
              (parse_sections_multi (replicate 301 CHR ''a'') ''AI'' ''new_tool_intro'') = []"
    by code_simp
  show ?thesis
    using h1 h2
      empty_storyline_prefix [of "replicate 501 CHR ''a''" "''AI''" "''new_tool_intro''"]
      empty_storyline_prefix [of "replicate 301 CHR ''a''" "''AI''" "''new_tool_intro''"]
    by simp
qed

text \<open>
  For a response of 301 letters the multi-category parser leaves the storyline empty and
  returns 300 letters, not the first 500 characters of the response (all 301 letters).
\<close>

theorem empty_storyline_prefix_counterexample:
  "master_storyline (parse_sections_multi (replicate 301 CHR ''a'') ''AI'' ''new_tool_intro'') = [] \<and>
   master_storyline (parse_response_multi (replicate 301 CHR ''a'') ''AI'' ''new_tool_intro'')
     \<noteq> take 500 (replicate 301 CHR ''a'')"
  by code_simp

section \<open>Splitting a thread or a list of calls to action\<close>

lemma comprehension_filter_map:
  "[f t. t \<leftarrow> xs, f t \<noteq> []] = filter (\<lambda>s. s \<noteq> []) (map f xs)"
  by (induction xs) simp_all

lemma split_segments_filter_map:
  "split_segments text = filter (\<lambda>s. s \<noteq> []) (map strip (split_str ''---'' text))"
  unfolding split_segments_def by (rule comprehension_filter_map)

lemma split_segments_trimmed:
  assumes "s \<in> set (split_segments text)"
  shows "s \<noteq> [] \<and> strip s = s"
proof -
  from assms obtain t where "s = strip t" "s \<noteq> []"
    unfolding split_segments_filter_map by auto
  then show ?thesis by (simp add: strip_strip)
qed

lemma flush_thread_splits:
  assumes "current_section st = Some Twitter_thread" and "current_content st \<noteq> []"
  shows "twitter_thread (flush_thread sep st)
           = Lst (split_segments (join sep (current_content st)))"
  using assms by (simp add: flush_thread_def)

lemma flush_cta_splits:
  assumes "current_section st = Some Cta" and "current_content st \<noteq> []"
  shows "cta (flush_cta sep st) = Lst (split_segments (join sep (current_content st)))"
  using assms by (simp add: flush_cta_def)

lemma flush_stores_string:
  assumes "current_content st \<noteq> []"
  shows "current_section st = Some Twitter_thread \<Longrightarrow>
           twitter_thread (flush sep st) = Str (strip (join sep (current_content st)))"
    and "current_section st = Some Cta \<Longrightarrow>
           cta (flush sep st) = Str (strip (join sep (current_content st)))"
  using assms by (simp_all add: flush_def)

lemma handle_last_splits:
  assumes "current_content st \<noteq> []"
  shows "current_section st = Some Twitter_thread \<Longrightarrow>
           twitter_thread (handle_last sep st)
             = Lst (split_segments (join sep (current_content st)))"
    and "current_section st = Some Cta \<Longrightarrow>
           cta (handle_last sep st) = Lst (split_segments (join sep (current_content st)))"
    and "current_section st = Some Twitter_thread \<Longrightarrow>
           twitter_thread (handle_last_multi st)
             = Lst (split_segments (join ''\<newline>'' (current_content st)))"
  using assms by (simp_all add: handle_last_def handle_last_multi_def)

lemma step_caption_closes_thread:
  assumes "startswith (strip block) ''CAPTION:''"
    and "current_section st = Some Twitter_thread" and "current_content st \<noteq> []"
  shows "twitter_thread (result (step st block))
           = Lst (split_segments (join ''\<newline>\<newline>'' (current_content st)))"
proof -
  from assms(1) obtain post where "strip block = ''CAPTION:'' @ post"
    unfolding startswith_iff by blast
  then have "step st block =
      \<lparr>result = flush_thread ''\<newline>\<newline>'' st, current_section = Some Caption,
       current_content = [strip (replace ''CAPTION:'' [] (strip block))]\<rparr>"
    by (simp add: step_def Let_def)
  then show ?thesis using assms(2,3) by (simp add: flush_thread_splits)
qed

lemma step_hashtags_closes_cta:
  assumes "startswith (strip block) ''HASHTAGS:''"
    and "current_section st = Some Cta" and "current_content st \<noteq> []"
  shows "cta (result (step st block))
           = Lst (split_segments (join ''\<newline>\<newline>'' (current_content st)))"
proof -
  from assms(1) obtain post where "strip block = ''HASHTAGS:'' @ post"
    unfolding startswith_iff by blast
  then have "result (step st block) =
      (flush_cta ''\<newline>\<newline>'' st)
         \<lparr>hashtags := parse_hashtags (strip (replace ''HASHTAGS:'' [] (strip block)))\<rparr>"
    by (simp add: step_def Let_def)
  then show ?thesis using assms(2,3) by (simp add: flush_cta_splits)
qed

lemma step_thread_marker_discards_block:
  assumes "startswith (strip block) ''TWITTER_THREAD:''"
  shows "current_section (step st block) = Some Twitter_thread \<and>
         current_content (step st block) = []"
proof -
  from assms obtain post where "strip block = ''TWITTER_THREAD:'' @ post"
    unfolding startswith_iff by blast
  then show ?thesis by (simp add: step_def Let_def)
qed

lemma step_cta_marker_discards_block:
  assumes "startswith (strip block) ''CTA:''"
  shows "current_section (step st block) = Some Cta \<and>
         current_content (step st block) = []"
proof -
  from assms obtain post where p: "strip block = ''CTA:'' @ post"
    unfolding startswith_iff by blast
  have "\<not> startswith (strip block) ''CATEGORY:''" "\<not> startswith (strip block) ''CAPTION:''"
    unfolding p by simp_all
  then show ?thesis unfolding step_def Let_def p by simp
qed

text \<open>
  C9, evaluated. The split itself trims every piece and drops the empty ones, and it is what
  fills the field when a thread is closed by \<^verbatim>\<open>CAPTION:\<close>, a list of calls to action by
  \<^verbatim>\<open>HASHTAGS:\<close>, or either is the last section. But in the single-category parser the
  \<^verbatim>\<open>TWITTER_THREAD:\<close> and \<^verbatim>\<open>CTA:\<close> branches start with an empty buffer and so discard
  the rest of the marker's own block, where the branches of the storyline, the two scripts
  and the caption keep it. The text \<^verbatim>\<open>A\n---\n\nB\n---\nC\<close> directly under the marker
  therefore gives \<^verbatim>\<open>["B", "C"]\<close>; a thread laid out as the prompt asks, all in the marker's
  block, is lost and replaced by the default; and a thread closed by \<^verbatim>\<open>CTA:\<close> is stored
  unsplit, as one string. The multi-category parser gives \<^verbatim>\<open>["A", "B", "C"]\<close> on the same
  text.
\<close>

theorem thread_and_cta_sections_evaluated:
  "split_segments ''A\<newline>---\<newline>\<newline>B\<newline>---\<newline>C'' = [''A'', ''B'', ''C''] \<and>
   twitter_thread
     (parse_response ''TWITTER_THREAD:\<newline>A\<newline>---\<newline>\<newline>B\<newline>---\<newline>C'' tp)
     = Lst [''B'', ''C''] \<and>
   cta (parse_response ''CTA:\<newline>A\<newline>---\<newline>\<newline>B\<newline>---\<newline>C'' tp)
     = Lst [''B'', ''C''] \<and>
   twitter_thread
     (parse_response ''TWITTER_THREAD:\<newline>Tweet 1\<newline>---\<newline>Tweet 2\<newline>\<newline>CAPTION:\<newline>Hook'' tp)
     = Lst [''TWITTER_THREAD:\<newline>Tweet 1\<newline>---\<newline>Tweet 2\<newline>\<newline>CAPTION:\<newline>Hook''] \<and>
   twitter_thread
     (parse_response ''TWITTER_THREAD:\<newline>\<newline>A\<newline>---\<newline>\<newline>B\<newline>---\<newline>C\<newline>\<newline>CTA:\<newline>\<newline>x'' tp)
     = Str ''A\<newline>---\<newline>\<newline>B\<newline>---\<newline>C'' \<and>
   twitter_thread
     (parse_response ''TWITTER_THREAD:\<newline>\<newline>A\<newline>---\<newline>\<newline>B\<newline>---\<newline>C\<newline>\<newline>CAPTION:\<newline>Hook'' tp)
     = Lst [''A'', ''B'', ''C''] \<and>
   cta (parse_response ''CTA:\<newline>\<newline>A\<newline>---\<newline>\<newline>B\<newline>---\<newline>C\<newline>\<newline>HASHTAGS:\<newline>#AI'' tp)
     = Lst [''A'', ''B'', ''C''] \<and>
   twitter_thread
     (parse_response_multi ''TWITTER_THREAD:\<newline>A\<newline>---\<newline>\<newline>B\<newline>---\<newline>C'' tp cat)
     = Lst [''A'', ''B'', ''C'']"
  by code_simp

section \<open>Where a marker is recognised\<close>

lemma step_multi_no_marker:
  assumes "\<not> is_marker_line line"
  shows "step_multi st line =
           (if current_section st = None then st
            else st\<lparr>current_content := current_content st @ [line]\<rparr>)"
  using assms by (simp add: is_marker_line_def MARKERS_multi_def step_multi_def)

lemma step_multi_marker:
  assumes "is_marker_line line"
  shows "current_section (step_multi st line) \<noteq> None \<and> current_content (step_multi st line) = []"
  using assms by (simp add: is_marker_line_def MARKERS_multi_def step_multi_def) blast

lemma contains_anywhere: "contains (pre @ m @ post) m"
  unfolding contains_iff by blast

lemma is_marker_line_anywhere:
  "m \<in> set MARKERS_multi \<Longrightarrow> is_marker_line (pre @ m @ post)"
  unfolding is_marker_line_def list_ex_iff using contains_anywhere by blast

text \<open>
  C8, as the code has it. The single-category parser recognises a marker only at the start
  of a trimmed block (a piece of the response between blank lines): a block that does not
  start with one of the eight markers opens no section and changes nothing in the record,
  wherever else a marker occurs in it; it is appended to the buffer of the open section, if
  there is one. The multi-category parser does the same for a line in which none of its
  five markers occurs, but a marker anywhere in a line, not only at its start, opens a new
  section with an empty buffer. Matching is exact, so it is case-sensitive.
\<close>

theorem markers_start_of_block_or_anywhere_in_line:
  "(\<not> is_marker_block block \<longrightarrow>
      step st block = (if current_section st = None then st
                       else st\<lparr>current_content := current_content st @ [strip block]\<rparr>)) \<and>
   (\<not> is_marker_line line \<longrightarrow>
      step_multi st line = (if current_section st = None then st
                            else st\<lparr>current_content := current_content st @ [line]\<rparr>)) \<and>
   (m \<in> set MARKERS_multi \<longrightarrow>
      current_section (step_multi st (pre @ m @ post)) \<noteq> None \<and>
      current_content (step_multi st (pre @ m @ post)) = [])"
proof (intro conjI impI)
  assume "\<not> is_marker_block block"
  then show "step st block = (if current_section st = None then st
                       else st\<lparr>current_content := current_content st @ [strip block]\<rparr>)"
    by (rule step_no_marker)
next
  assume "\<not> is_marker_line line"
  then show "step_multi st line = (if current_section st = None then st
                            else st\<lparr>current_content := current_content st @ [line]\<rparr>)"
    by (rule step_multi_no_marker)
next
  assume "m \<in> set MARKERS_multi"
  then have "is_marker_line (pre @ m @ post)" by (rule is_marker_line_anywhere)
  then show "current_section (step_multi st (pre @ m @ post)) \<noteq> None"
    using step_multi_marker by blast
next
  assume "m \<in> set MARKERS_multi"
  then have "is_marker_line (pre @ m @ post)" by (rule is_marker_line_anywhere)
  then show "current_content (step_multi st (pre @ m @ post)) = []"
    using step_multi_marker by blast
qed

theorem markers_start_of_block_or_anywhere_in_line_witness:
  "\<not> is_marker_block ''Intro mentions CTA: and HASHTAGS: inline'' \<and>
   step \<lparr>result = init_result ''AI'', current_section = Some Master_storyline,
         current_content = [''x'']\<rparr> ''Intro mentions CTA: and HASHTAGS: inline''
     = \<lparr>result = init_result ''AI'', current_section = Some Master_storyline,
        current_content = [''x'', ''Intro mentions CTA: and HASHTAGS: inline'']\<rparr> \<and>
   \<not> is_marker_line ''caption: in lower case'' \<and>
   step_multi \<lparr>result = init_result ''AI'', current_section = Some Master_storyline,
               current_content = [''x'']\<rparr> ''caption: in lower case''
     = \<lparr>result = init_result ''AI'', current_section = Some Master_storyline,
        current_content = [''x'', ''caption: in lower case'']\<rparr> \<and>
   ''CAPTION:'' \<in> set MARKERS_multi \<and>
   current_section
     (step_multi \<lparr>result = init_result ''AI'', current_section = None, current_content = []\<rparr>
        (''see '' @ ''CAPTION:'' @ '' below'')) \<noteq> None"
proof -
  let ?st = "\<lparr>result = init_result ''AI'', current_section = Some Master_storyline,
              current_content = [''x'']\<rparr>"
  let ?ini = "\<lparr>result = init_result ''AI'', current_section = None, current_content = []\<rparr>"
  let ?b = "''Intro mentions CTA: and HASHTAGS: inline''"
  let ?l = "''caption: in lower case''"
  have h1: "\<not> is_marker_block ?b" by code_simp
  have h2: "\<not> is_marker_line ?l" by code_simp
  have h3: "''CAPTION:'' \<in> set MARKERS_multi" by (simp add: MARKERS_multi_def)
  have s: "strip ?b = ?b" by code_simp
  from markers_start_of_block_or_anywhere_in_line
         [of ?b ?st ?l "''CAPTION:''" "''see ''" "'' below''"] h1 h2
  have a: "step ?st ?b = ?st\<lparr>current_content := current_content ?st @ [strip ?b]\<rparr>"
    and b: "step_multi ?st ?l = ?st\<lparr>current_content := current_content ?st @ [?l]\<rparr>"
    by simp_all
  from markers_start_of_block_or_anywhere_in_line
         [of ?b ?ini ?l "''CAPTION:''" "''see ''" "'' below''"] h3
  have c: "current_section (step_multi ?ini (''see '' @ ''CAPTION:'' @ '' below'')) \<noteq> None"
    by blast
  from a have a': "step ?st ?b = \<lparr>result = init_result ''AI'',
      current_section = Some Master_storyline, current_content = [''x'', ?b]\<rparr>"
    unfolding s by simp
  from b have b': "step_multi ?st ?l = \<lparr>result = init_result ''AI'',
      current_section = Some Master_storyline, current_content = [''x'', ?l]\<rparr>"
    by simp
  from h1 a' h2 b' h3 c show ?thesis by blast
qed

text \<open>
  A line of a response to the multi-category parser that holds \<^verbatim>\<open>YOUTUBE_SCRIPT:\<close> in its
  middle closes the storyline and opens the script section.
\<close>

theorem marker_inside_line_counterexample:
  "\<not> startswith (strip ''see YOUTUBE_SCRIPT: below'') ''YOUTUBE_SCRIPT:'' \<and>
   master_storyline
     (parse_response_multi
        ''MASTER_STORYLINE:\<newline>first\<newline>see YOUTUBE_SCRIPT: below\<newline>second''
        ''AI'' ''new_tool_intro'') = ''first'' \<and>
   youtube_script
     (parse_response_multi
        ''MASTER_STORYLINE:\<newline>first\<newline>see YOUTUBE_SCRIPT: below\<newline>second''
        ''AI'' ''new_tool_intro'') = ''second''"
  by code_simp

section \<open>The orchestrator\<close>

lemma collect_eq:
  "collect ai bp fc tp model results (c, n) =
     (if responded ai bp fc tp model c
      then results @ [parse_response_multi (the (ai (bp tp c fc) model 2000)) tp c]
      else results)"
  by (simp add: collect_def responded_def split: option.split)

lemma foldl_collect:
  "foldl (collect ai bp fc tp model) acc items =
     acc @ map (\<lambda>c. parse_response_multi (the (ai (bp tp c fc) model 2000)) tp c)
             (filter (responded ai bp fc tp model) (map fst items))"
proof (induction items arbitrary: acc)
  case Nil
  show ?case by simp
next
  case (Cons item items)
  obtain c n where item: "item = (c, n)" by (cases item)
  show ?case by (simp add: item Cons.IH collect_eq)
qed

lemma CATEGORIES_ids:
  "length (map fst CATEGORIES) = 6" "distinct (map fst CATEGORIES)"
  by (simp_all add: CATEGORIES_def)

lemma map_category_parse:
  "map category (map (\<lambda>c. parse_response_multi (f c) tp c) cs) = cs"
  by (induction cs) (simp_all add: category_parse_response_multi)

text \<open>
  C4. When the service is available, \<^verbatim>\<open>generate_all\<close> raises nothing and returns one
  record for each category whose request came back with a non-empty text, parsed from that
  text, in the order of \<^verbatim>\<open>CATEGORIES\<close>; a category whose request returned \<^verbatim>\<open>None\<close> or an
  empty text is left out and the later categories are still requested. The categories of
  the returned records are therefore distinct and at most six.
\<close>

theorem generate_all_one_record_per_response:
  assumes "ai_available"
  shows "generate_all ai_available ai bp sc tp ctx model =
           Inr (map (\<lambda>c. parse_response_multi
                            (the (ai (bp tp c (shared_context sc ctx)) model 2000)) tp c)
                  (filter (responded ai bp (shared_context sc ctx) tp model)
                     (map fst CATEGORIES))) \<and>
         map category (projr (generate_all ai_available ai bp sc tp ctx model)) =
           filter (responded ai bp (shared_context sc ctx) tp model) (map fst CATEGORIES) \<and>
         distinct (map category (projr (generate_all ai_available ai bp sc tp ctx model))) \<and>
         length (projr (generate_all ai_available ai bp sc tp ctx model)) \<le> 6"
proof -
  let ?ok = "responded ai bp (shared_context sc ctx) tp model"
  let ?rs = "map (\<lambda>c. parse_response_multi
                         (the (ai (bp tp c (shared_context sc ctx)) model 2000)) tp c)
               (filter ?ok (map fst CATEGORIES))"
  have g: "generate_all ai_available ai bp sc tp ctx model = Inr ?rs"
    using assms by (simp add: generate_all_def foldl_collect)
  have c: "map category ?rs = filter ?ok (map fst CATEGORIES)"
    by (rule map_category_parse)
  have d: "distinct (map category ?rs)"
    unfolding c using CATEGORIES_ids(2) by (rule distinct_filter)
  have "length (filter ?ok (map fst CATEGORIES)) \<le> length (map fst CATEGORIES)"
    by (rule length_filter_le)
  then have "length (filter ?ok (map fst CATEGORIES)) \<le> 6"
    unfolding CATEGORIES_ids(1) .
  then have l: "length ?rs \<le> 6" by (simp only: length_map)
  show ?thesis unfolding g using c d l by simp
qed

theorem generate_all_one_record_per_response_witness:
  "map category
     (projr (generate_all True
        (\<lambda>prompt model max_tokens.
            if contains prompt ''news'' then None
            else if contains prompt ''github'' then Some []
            else Some ''MASTER_STORYLINE:\<newline>A story'')
        (\<lambda>tp category context. category) [] ''AI agents'' None ''openai/gpt-3.5-turbo''))
     = [''new_tool_intro'', ''tool_detailed_tutorial'', ''trending_ai_model'',
        ''instagram_engagement_content'']"
proof -
  let ?ai = "\<lambda>prompt model max_tokens.
               if contains prompt ''news'' then None
               else if contains prompt ''github'' then (Some [] :: string option)
               else Some ''MASTER_STORYLINE:\<newline>A story''"
  let ?bp = "\<lambda>(tp :: string) (category :: string) (context :: string). category"
  have f: "filter (responded ?ai ?bp (shared_context [] None) ''AI agents''
                     ''openai/gpt-3.5-turbo'') (map fst CATEGORIES)
             = [''new_tool_intro'', ''tool_detailed_tutorial'', ''trending_ai_model'',
                ''instagram_engagement_content'']"
    by code_simp
  have t: True by simp
  from generate_all_one_record_per_response
         [OF t, of ?ai ?bp "[]" "''AI agents''" None "''openai/gpt-3.5-turbo''"]
  show ?thesis unfolding f by blast
qed

section \<open>The single-category generation call\<close>

text \<open>
  C6, as the code has it. When the service is available and its reply is \<^verbatim>\<open>None\<close> or the
  empty text, \<^verbatim>\<open>generate\<close> raises \<^verbatim>\<open>Exception("Failed to generate content from AI")\<close>:
  it neither skips nor parses. (The HTTP handler of \<^verbatim>\<open>api.py\<close> catches the exception and
  answers with status 500.)
\<close>

theorem generate_absent_response_raises:
  assumes "ai_available"
    and "ai (build_prompt tp (single_context sc ctx)) model 3500 = None \<or>
         ai (build_prompt tp (single_context sc ctx)) model 3500 = Some []"
  shows "generate ai_available ai build_prompt sc tp ctx model
           = Inl (Exception ''Failed to generate content from AI'')"
  using assms by (auto simp: generate_def)

theorem generate_absent_response_raises_witness:
  "generate True (\<lambda>prompt model max_tokens. Some []) (\<lambda>tp context. tp @ context)
     ''facts'' ''AI agents'' (Some ''script'') ''openai/gpt-3.5-turbo''
     = Inl (Exception ''Failed to generate content from AI'')"
proof -
  have t: True by simp
  show ?thesis
    by (rule generate_absent_response_raises [OF t]) simp
qed

text \<open>
  With a service that answers \<^verbatim>\<open>None\<close> the call ends in the exception.
\<close>

theorem generate_absent_response_counterexample:
  "generate True (\<lambda>prompt model max_tokens. None) (\<lambda>tp context. tp) []
     ''AI agents'' None ''openai/gpt-3.5-turbo''
     = Inl (Exception ''Failed to generate content from AI'')"
  by (simp add: generate_def)

end
